theory Spec2Isabelle
  imports Main "HOL-Library.Word" "HOL-Library.Sublist"
begin

unbundle bit_operations_syntax

section \<open>Bus transport: the BCD codec of main.go\<close>

text \<open>
  Go's \<^verbatim>\<open>byte\<close> is an unsigned 8-bit integer: an \<open>8 word\<close>, on which \<open>+\<close> and
  \<open>push_bit\<close> wrap and \<open>div\<close>, \<open>mod\<close> are the unsigned operations. Go's \<^verbatim>\<open>int\<close>
  is modelled by \<open>int\<close>: the only conversion into it, in \<^verbatim>\<open>fromBCD\<close>, yields at most
  \<open>15 + 15 * 10\<close>, so no \<^verbatim>\<open>int\<close> arithmetic of the program can overflow; the
  conversion \<^verbatim>\<open>byte(n)\<close> keeps the low eight bits, which is \<open>word_of_int\<close>.
\<close>

type_synonym byte = "8 word"

text \<open>
  \<^verbatim>\<open>func fromBCD(b byte) int { return int(b&0x0F) + int(b>>4)*10 }\<close>
\<close>

definition fromBCD :: "byte \<Rightarrow> int" where
  "fromBCD b = uint (b AND 0x0F) + uint (drop_bit 4 b) * 10"

text \<open>
  \<^verbatim>\<open>func toBCD(n int) byte { return byte(n)/10<<4 + byte(n)%10 }\<close>

  In Go \<^verbatim>\<open>/\<close>, \<^verbatim>\<open><<\<close> and \<^verbatim>\<open>%\<close> share one precedence level and associate to the
  left, above \<^verbatim>\<open>+\<close>: the expression is \<^verbatim>\<open>((byte(n)/10)<<4) + (byte(n)%10)\<close>, all
  of it in 8-bit arithmetic.
\<close>

definition toBCD :: "int \<Rightarrow> byte" where
  "toBCD n = push_bit 4 ((word_of_int n :: byte) div 10) + (word_of_int n :: byte) mod 10"

text \<open>The 256 values of a byte, for properties settled by running the codec on each.\<close>

definition all_bytes :: "byte list" where
  "all_bytes = map of_nat [0..<256]"

section \<open>Time, durations and the package-level variables\<close>

text \<open>
  A \<^verbatim>\<open>time.Time\<close> is modelled by the number of nanoseconds since Go's zero Time
  (January 1, year 1, 00:00:00 UTC), so that \<^verbatim>\<open>time.Time{}\<close> is \<open>0\<close>. A
  \<^verbatim>\<open>time.Duration\<close> is a 64-bit count of nanoseconds; \<^verbatim>\<open>Time.Sub\<close> saturates at
  the ends of that range, which is written out in \<open>Sub\<close>. \<^verbatim>\<open>time.Until(t)\<close> is
  \<^verbatim>\<open>t.Sub(time.Now())\<close>: the reading of the clock is its second argument here.
\<close>

type_synonym Time = int
type_synonym Duration = int
type_synonym error = string

definition zeroTime :: Time where
  "zeroTime = 0"

definition Second :: Duration where
  "Second = 1000000000"

definition Minute :: Duration where
  "Minute = 60 * Second"

definition minDuration :: Duration where
  "minDuration = - (2 ^ 63)"

definition maxDuration :: Duration where
  "maxDuration = 2 ^ 63 - 1"

definition Sub :: "Time \<Rightarrow> Time \<Rightarrow> Duration" where
  "Sub t u =
     (if t - u < minDuration then minDuration
      else if maxDuration < t - u then maxDuration
      else t - u)"

definition Until :: "Time \<Rightarrow> Time \<Rightarrow> Duration" where
  "Until t clock = Sub t clock"

text \<open>
  The variables of the \<^verbatim>\<open>var\<close> block (lines 43 to 49) that hold deadlines, guarded by
  \<^verbatim>\<open>mu\<close>:
  \<^verbatim>\<open>stayOnUntil = time.Now()\<close> and \<^verbatim>\<open>saltCommandWaitEnd = time.Time{}\<close>.
  \<open>init_globals t\<close> is their content after package initialisation when the clock
  reads \<open>t\<close>.
\<close>

record globals =
  stayOnUntil :: Time
  saltCommandWaitEnd :: Time

definition init_globals :: "Time \<Rightarrow> globals" where
  "init_globals clock = \<lparr>stayOnUntil = clock, saltCommandWaitEnd = zeroTime\<rparr>"

definition version :: string where
  "version = ''<not set>''"

section \<open>The environment of one run\<close>

record Args =
  ConfigDir :: string
  SkipWait :: bool
  Timestamps :: bool
  SkipSystemShutdown :: bool

text \<open>
  The schedule of package window is not part of the repository: the program only
  queries it. Each query answers for the instant at which it is asked.
\<close>

record Window =
  Active :: "Time \<Rightarrow> bool"
  NextStart :: "Time \<Rightarrow> Time"
  NextEnd :: "Time \<Rightarrow> Time"

record Config =
  OnWindow :: Window

text \<open>
  The camera state is the value the power MCU's client caches in its field
  \<^verbatim>\<open>CameraState\<close>; its type is declared outside main.go and is kept as the raw
  register value.
\<close>

type_synonym CameraState = byte

text \<open>
  A world fixes what the collaborators of \<^verbatim>\<open>runMain\<close> answer in one run: the parsed
  arguments, the outcome of every call that can fail (an \<open>error\<close> or a result), the
  successive outcomes of \<^verbatim>\<open>attiny.ReadCameraState()\<close> by call number, the output and
  exit error of \<^verbatim>\<open>/sbin/poweroff\<close>, and the content of the deadline variables at
  each instant, as the initialisers and the other goroutines holding \<^verbatim>\<open>mu\<close> leave
  them. A call that never returns (the unbounded retry of the connection) is not a
  world: a world describes a run in which every call returns.
\<close>

record world =
  env_procArgs :: Args
  env_ParseConfig :: "error + Config"
  env_connectToATtiny :: "error + CameraState"
  env_InitPCF9564 :: "error option"
  env_ReadCameraState :: "nat \<Rightarrow> error + CameraState"
  env_ClearAlarmFlag :: "error option"
  env_GetTime :: "error + Time"
  env_SetAlarmTime :: "error option"
  env_SetAlarmEnabled :: "error option"
  env_PoweringOff :: "error option"
  env_poweroff :: "string \<times> error option"
  env_globals :: "Time \<Rightarrow> globals"

text \<open>
  What a run does is recorded as a trace of events, each with the reading of the clock
  when it happens: the log lines, the calls to the two devices, the sleeps, the
  start of the watchdog goroutine and the execution of the power-off command.
\<close>

datatype event =
    LogSetFlags0
  | Log string
  | LogRTCTime Time
  | LogAlarmTime Time
  | LogCameraState CameraState
  | LogSleepingFor Duration
  | LogFatal error
  | CallParseConfig string
  | CallConnectToATtinyWithRetries nat
  | StartWatchdog
  | CallInitPCF9564
  | CallReadCameraState
  | CallClearAlarmFlag
  | CallGetTime
  | CallSetAlarmTime Time
  | CallSetAlarmEnabled bool
  | CallPoweringOff
  | Sleep Duration
  | ExecPoweroff

fun is_wait :: "event \<Rightarrow> bool" where
  "is_wait (Sleep d) = True"
| "is_wait _ = False"

record state =
  now :: Time
  trace :: "(Time \<times> event) list"
  reads :: nat
  attiny_CameraState :: CameraState

definition init_state :: "Time \<Rightarrow> state" where
  "init_state clock = \<lparr>now = clock, trace = [], reads = 0, attiny_CameraState = 0\<rparr>"

definition emit :: "event \<Rightarrow> state \<Rightarrow> state" where
  "emit e s = s\<lparr>trace := trace s @ [(now s, e)]\<rparr>"

text \<open>
  \<^verbatim>\<open>time.Sleep(d)\<close> returns at once when \<open>d \<le> 0\<close>. The clock of the model advances
  in sleeps only, by the duration asked for: calls and log lines take no time.
\<close>

definition time_Sleep :: "Duration \<Rightarrow> state \<Rightarrow> state" where
  "time_Sleep d s = (emit (Sleep d) s)\<lparr>now := now s + max 0 d\<rparr>"

text \<open>
  Modelled from the spec: the method \<^verbatim>\<open>ReadCameraState\<close> of the power MCU's client,
  whose body is not in main.go. It reads and decodes the status register, updates the
  cached \<^verbatim>\<open>CameraState\<close> field and returns the error of the transaction, if any; on
  an error the cache keeps its value.
\<close>

definition ReadCameraState :: "world \<Rightarrow> state \<Rightarrow> error option \<times> state" where
  "ReadCameraState w s =
     (let s1 = (emit CallReadCameraState s)\<lparr>reads := Suc (reads s)\<rparr>
      in case env_ReadCameraState w (reads s) of
           Inl err \<Rightarrow> (Some err, s1)
         | Inr cs \<Rightarrow> (None, s1\<lparr>attiny_CameraState := cs\<rparr>))"

section \<open>The orchestration: shutdown, runMain and main\<close>

text \<open>
  \<^verbatim>\<open>shutdown\<close> (lines 209 to 216) runs \<^verbatim>\<open>/sbin/poweroff\<close> and, when the command fails,
  returns \<^verbatim>\<open>fmt.Errorf("poweroff failed: %v\n%s", err, output)\<close>.
\<close>

definition shutdown :: "world \<Rightarrow> state \<Rightarrow> error option \<times> state" where
  "shutdown w s =
     (let s1 = emit ExecPoweroff s
      in case env_poweroff w of
           (output, Some err) \<Rightarrow> (Some (''poweroff failed: '' @ err @ [CHR 0x0A] @ output), s1)
         | (output, None) \<Rightarrow> (None, s1))"

text \<open>
  \<^verbatim>\<open>runMain\<close> is given in the four parts the spec names. \<open>connecting\<close> is lines 80 to
  144: every \<^verbatim>\<open>if err != nil { return err }\<close> is a branch that returns \<open>Inl err\<close>; the
  result of the last \<^verbatim>\<open>attiny.ReadCameraState()\<close> (line 143) is dropped, as in the
  source.
\<close>

definition connecting :: "world \<Rightarrow> state \<Rightarrow> (error + Config) \<times> state" where
  "connecting w s0 =
    (let args = env_procArgs w;
         s1 = (if \<not> Timestamps args then emit LogSetFlags0 s0 else s0);
         s2 = emit (Log (''running version: '' @ version)) s1;
         s3 = emit (CallParseConfig (ConfigDir args)) s2
     in case env_ParseConfig w of
          Inl err \<Rightarrow> (Inl err, s3)
        | Inr conf \<Rightarrow>
    (let s4 = emit (Log ''Connecting to ATtiny1616'') s3;
         s5 = emit (CallConnectToATtinyWithRetries 0) s4
     in case env_connectToATtiny w of
          Inl err \<Rightarrow> (Inl err, s5)
        | Inr cs0 \<Rightarrow>
    (let s6 = emit (Log ''Setting up WDT pinging'') (s5\<lparr>attiny_CameraState := cs0\<rparr>);
         s7 = emit StartWatchdog s6;
         s8 = emit (Log ''Connecting to RTC'') s7;
         s9 = emit CallInitPCF9564 s8
     in case env_InitPCF9564 w of
          Some err \<Rightarrow> (Inl err, s9)
        | None \<Rightarrow>
    (case ReadCameraState w s9 of
          (Some err, s10) \<Rightarrow> (Inl err, s10)
        | (None, s10) \<Rightarrow>
    (let s11 = emit CallClearAlarmFlag s10
     in case env_ClearAlarmFlag w of
          Some err \<Rightarrow> (Inl err, s11)
        | None \<Rightarrow>
    (let s12 = emit CallGetTime s11
     in case env_GetTime w of
          Inl err \<Rightarrow> (Inl err, s12)
        | Inr t \<Rightarrow>
    (let s13 = emit (LogRTCTime t) s12;
         alarmTime = NextStart (OnWindow conf) (now s13);
         s14 = emit (LogAlarmTime alarmTime) s13;
         s15 = emit (CallSetAlarmTime alarmTime) s14
     in case env_SetAlarmTime w of
          Some err \<Rightarrow> (Inl err, s15)
        | None \<Rightarrow>
    (let s16 = emit (CallSetAlarmEnabled True) s15
     in case env_SetAlarmEnabled w of
          Some err \<Rightarrow> (Inl err, s16)
        | None \<Rightarrow>
    (let s17 = snd (ReadCameraState w s16);
         s18 = emit (LogCameraState (attiny_CameraState s17)) s17
     in (Inr conf, s18))))))))))"

text \<open>Lines 146 to 151: the initial grace period, unless \<^verbatim>\<open>args.SkipWait\<close>.\<close>

definition gracePeriod :: "Args \<Rightarrow> state \<Rightarrow> state" where
  "gracePeriod args s =
     (if SkipWait args then emit (Log ''Not waiting initial grace period.'') s
      else time_Sleep (20 * Minute)
             (emit (Log ''Waiting 20 minutes before checking for power off.'') s))"

text \<open>
  Lines 153 to 161: when the window is active or starts in under two minutes, one
  \<^verbatim>\<open>time.Sleep\<close> of \<^verbatim>\<open>time.Until(conf.OnWindow.NextEnd())\<close>.
\<close>

definition awaitWindow :: "world \<Rightarrow> Config \<Rightarrow> state \<Rightarrow> state" where
  "awaitWindow w conf s =
     (if Active (OnWindow conf) (now s)
         \<or> Until (NextStart (OnWindow conf) (now s)) (now s) < Minute * 2
      then
        let delayDuration = Until (NextEnd (OnWindow conf) (now s)) (now s);
            s1 = emit (LogSleepingFor delayDuration) s;
            s2 = time_Sleep delayDuration s1;
            s3 = emit (Log ''Finished waiting for power off'') s2;
            s4 = snd (ReadCameraState w s3)
        in emit (LogCameraState (attiny_CameraState s4)) s4
      else s)"

text \<open>
  Lines 163 to 171: the results of both \<^verbatim>\<open>attiny.ReadCameraState()\<close> calls and of
  \<^verbatim>\<open>shutdown()\<close> are dropped; \<^verbatim>\<open>args.SkipSystemShutdown\<close> is not read.
\<close>

definition shutdownStage :: "world \<Rightarrow> state \<Rightarrow> error option \<times> state" where
  "shutdownStage w s =
     (let s1 = snd (ReadCameraState w s);
          s2 = emit (LogCameraState (attiny_CameraState s1)) s1;
          s3 = emit CallPoweringOff s2
      in case env_PoweringOff w of
           Some err \<Rightarrow> (Some err, s3)
         | None \<Rightarrow>
             (let s4 = snd (ReadCameraState w s3);
                  s5 = emit (LogCameraState (attiny_CameraState s4)) s4;
                  s6 = snd (shutdown w s5)
              in (None, s6)))"

definition runMain :: "world \<Rightarrow> state \<Rightarrow> error option \<times> state" where
  "runMain w s =
     (case connecting w s of
        (Inl err, s1) \<Rightarrow> (Some err, s1)
      | (Inr conf, s1) \<Rightarrow>
          shutdownStage w (awaitWindow w conf (gracePeriod (env_procArgs w) s1)))"

text \<open>
  \<^verbatim>\<open>main\<close> (lines 70 to 77): \<^verbatim>\<open>log.Fatal(err)\<close> prints the error and exits with status
  1; otherwise \<^verbatim>\<open>main\<close> returns and the process ends with status 0.
\<close>

definition main :: "world \<Rightarrow> state \<Rightarrow> nat \<times> state" where
  "main w s =
     (case runMain w s of
        (Some err, s1) \<Rightarrow> (1, emit (LogFatal err) s1)
      | (None, s1) \<Rightarrow> (0, s1))"

section \<open>The deadlines in the spec's words\<close>

text \<open>
  Modelled from the spec: the operation \<^verbatim>\<open>Extend\<close> of the Shared Deadline State
  (section 4.4), which main.go does not contain. It sets the named field to the maximum
  of its current value and the new deadline. The maintenance-pause deadline is the
  variable \<^verbatim>\<open>saltCommandWaitEnd\<close>.
\<close>

datatype deadline_kind = StayOn | MaintenancePause

fun Extend :: "deadline_kind \<Rightarrow> Time \<Rightarrow> globals \<Rightarrow> globals" where
  "Extend StayOn t g = g\<lparr>stayOnUntil := max (stayOnUntil g) t\<rparr>"
| "Extend MaintenancePause t g = g\<lparr>saltCommandWaitEnd := max (saltCommandWaitEnd g) t\<rparr>"

section \<open>The calls whose error runMain checks\<close>

definition err_of :: "error + 'a \<Rightarrow> error option" where
  "err_of r = (case r of Inl err \<Rightarrow> Some err | Inr x \<Rightarrow> None)"

text \<open>
  In the order of the source: lines 88, 94, 108, 113, 117, 126, 135, 139 and 165. The
  \<^verbatim>\<open>ReadCameraState\<close> of line 113 is the first read of a run.
\<close>

definition checked_calls :: "world \<Rightarrow> error option list" where
  "checked_calls w =
     [err_of (env_ParseConfig w), err_of (env_connectToATtiny w), env_InitPCF9564 w,
      err_of (env_ReadCameraState w 0), env_ClearAlarmFlag w, err_of (env_GetTime w),
      env_SetAlarmTime w, env_SetAlarmEnabled w, env_PoweringOff w]"

fun first_failure :: "error option list \<Rightarrow> error option" where
  "first_failure [] = None"
| "first_failure (None # es) = first_failure es"
| "first_failure (Some err # es) = Some err"

section \<open>Concrete runs\<close>

text \<open>
  Instants of the night from 2018-06-01 to 2018-06-02 (UTC), in nanoseconds since the
  zero Time, and a window that is open from 22:00 to 06:00.
\<close>

definition clock_2158 :: Time where
  "clock_2158 = 63663487080 * Second"

definition clock_2200 :: Time where
  "clock_2200 = 63663487200 * Second"

definition clock_2300 :: Time where
  "clock_2300 = 63663490800 * Second"

definition clock_0300 :: Time where
  "clock_0300 = 63663505200 * Second"

definition clock_0600 :: Time where
  "clock_0600 = 63663516000 * Second"

definition clock_0800 :: Time where
  "clock_0800 = 63663523200 * Second"

definition night_window :: Window where
  "night_window =
     \<lparr>Active = (\<lambda>t. clock_2200 \<le> t \<and> t < clock_0600),
      NextStart = (\<lambda>t. if t < clock_2200 then clock_2200 else clock_2200 + 1440 * Minute),
      NextEnd = (\<lambda>t. if t < clock_0600 then clock_0600 else clock_0600 + 1440 * Minute)\<rparr>"

text \<open>
  A world in which every call succeeds, the grace period is skipped and nothing
  extends the deadlines.
\<close>

definition world_ok :: world where
  "world_ok =
     \<lparr>env_procArgs =
        \<lparr>ConfigDir = ''/etc/cacophony'', SkipWait = True, Timestamps = False,
         SkipSystemShutdown = False\<rparr>,
      env_ParseConfig = Inr \<lparr>OnWindow = night_window\<rparr>,
      env_connectToATtiny = Inr 0,
      env_InitPCF9564 = None,
      env_ReadCameraState = (\<lambda>k. Inr 2),
      env_ClearAlarmFlag = None,
      env_GetTime = Inr clock_2158,
      env_SetAlarmTime = None,
      env_SetAlarmEnabled = None,
      env_PoweringOff = None,
      env_poweroff = ([], None),
      env_globals = (\<lambda>t. init_globals clock_2158)\<rparr>"

text \<open>The same world with the initial grace period.\<close>

definition world_grace :: world where
  "world_grace =
     world_ok\<lparr>env_procArgs := (env_procArgs world_ok)\<lparr>SkipWait := False\<rparr>\<rparr>"

text \<open>The same world started with \<^verbatim>\<open>--skip-system-shutdown\<close>.\<close>

definition world_skip_shutdown :: world where
  "world_skip_shutdown =
     world_ok\<lparr>env_procArgs := (env_procArgs world_ok)\<lparr>SkipSystemShutdown := True\<rparr>\<rparr>"

text \<open>The same world in which \<^verbatim>\<open>/sbin/poweroff\<close> fails.\<close>

definition world_poweroff_fails :: world where
  "world_poweroff_fails =
     world_ok\<lparr>env_poweroff := (''poweroff: must be superuser.'', Some ''exit status 1'')\<rparr>"

text \<open>
  The same world in which, at 03:00, another goroutine extends the stay-on deadline
  to 08:00.
\<close>

definition world_extended :: world where
  "world_extended =
     world_ok\<lparr>env_globals :=
       (\<lambda>t. if t < clock_0300 then init_globals clock_2300
            else Extend StayOn clock_0800 (init_globals clock_2300))\<rparr>"

section \<open>Properties of the BCD codec\<close>

lemma all_bytes_complete: "b \<in> set all_bytes"
proof -
  have "unat b < 256"
    using unsigned_less [of b, where 'a = nat] by simp
  moreover have "b = of_nat (unat b)"
    by simp
  ultimately show ?thesis
    unfolding all_bytes_def
    by (metis (no_types) atLeastLessThan_iff image_eqI le0 list.set_map set_upt)
qed

lemma decode_encode_upto_99: "\<forall>n \<in> {0..99::int}. fromBCD (toBCD n) = n"
  by code_simp

lemma encode_decode_all_bytes:
  "\<forall>b \<in> set all_bytes. b AND 0x0F \<le> 9 \<and> drop_bit 4 b \<le> 9 \<longrightarrow> toBCD (fromBCD b) = b"
  by code_simp

lemma decode_bounds_all_bytes:
  "\<forall>b \<in> set all_bytes.
     0 \<le> fromBCD b \<and> fromBCD b \<le> 165 \<and>
     (b AND 0x0F \<le> 9 \<and> drop_bit 4 b \<le> 9 \<longrightarrow> fromBCD b \<le> 99)"
  by code_simp

text \<open>
  C6 (BCD round trip). For every integer \<open>n\<close> with \<open>0 \<le> n \<le> 99\<close>, decoding the
  encoding of \<open>n\<close> gives \<open>n\<close> back: \<open>fromBCD (toBCD n) = n\<close>.
\<close>

theorem fromBCD_toBCD: "0 \<le> n \<Longrightarrow> n \<le> 99 \<Longrightarrow> fromBCD (toBCD n) = n"
  using decode_encode_upto_99 by simp

theorem fromBCD_toBCD_witness: "(0::int) \<le> 59 \<and> (59::int) \<le> 99 \<and> fromBCD (toBCD 59) = 59"
  using fromBCD_toBCD [of 59] by simp

text \<open>
  C8 (range of the decoder). The claim that \<open>fromBCD\<close> maps every byte into \<open>[0, 99]\<close>
  fails at a byte that is no BCD encoding: \<open>0xFF\<close> decodes to \<open>15 + 15 * 10 = 165\<close>.
\<close>

theorem fromBCD_range_counterexample:
  "fromBCD 0xFF = 165 \<and> \<not> (0 \<le> fromBCD 0xFF \<and> fromBCD 0xFF \<le> 99)"
  by (simp add: fromBCD_def)

text \<open>
  C8, amended. For every byte \<open>b\<close> the result of \<open>fromBCD b\<close> lies in \<open>[0, 165]\<close>, and
  it lies in \<open>[0, 99]\<close> whenever both nibbles of \<open>b\<close> are at most 9, that is, whenever
  \<open>b\<close> is a BCD encoding.
\<close>

theorem fromBCD_bounds:
  "0 \<le> fromBCD b \<and> fromBCD b \<le> 165 \<and>
   (b AND 0x0F \<le> 9 \<and> drop_bit 4 b \<le> 9 \<longrightarrow> fromBCD b \<le> 99)"
  using decode_bounds_all_bytes all_bytes_complete [of b] by blast

theorem fromBCD_bounds_witness:
  "(0x59::byte) AND 0x0F \<le> 9 \<and> drop_bit 4 (0x59::byte) \<le> 9 \<and>
   0 \<le> fromBCD 0x59 \<and> fromBCD 0x59 \<le> 99"
  using fromBCD_bounds [of "0x59"] by simp

text \<open>
  C10 (reverse BCD round trip). For every byte \<open>b\<close> whose low nibble and high nibble
  are each at most 9, encoding the decoding of \<open>b\<close> gives \<open>b\<close> back:
  \<open>toBCD (fromBCD b) = b\<close>.
\<close>

theorem toBCD_fromBCD:
  "b AND 0x0F \<le> 9 \<Longrightarrow> drop_bit 4 b \<le> 9 \<Longrightarrow> toBCD (fromBCD b) = b"
  using encode_decode_all_bytes all_bytes_complete [of b] by blast

theorem toBCD_fromBCD_witness:
  "(0x59::byte) AND 0x0F \<le> 9 \<and> drop_bit 4 (0x59::byte) \<le> 9 \<and> toBCD (fromBCD 0x59) = 0x59"
  using toBCD_fromBCD [of "0x59"] by simp

section \<open>Properties of the package-level variables\<close>

text \<open>
  C7 (initial deadlines). The claim that both deadlines start at the current time fails
  for the maintenance-pause deadline: started at 21:58 on 2018-06-01,
  \<open>saltCommandWaitEnd\<close> holds the zero Time, not the reading of the clock.
\<close>

theorem init_globals_counterexample:
  "saltCommandWaitEnd (init_globals clock_2158) = zeroTime \<and>
   \<not> (stayOnUntil (init_globals clock_2158) = clock_2158 \<and>
      saltCommandWaitEnd (init_globals clock_2158) = clock_2158)"
  by (simp add: init_globals_def zeroTime_def clock_2158_def Second_def)

text \<open>
  C7, amended. At process start the stay-on-until deadline is initialised to the
  current time, and the maintenance-pause deadline to the zero Time.
\<close>

theorem init_globals_deadlines:
  "stayOnUntil (init_globals clock) = clock \<and>
   saltCommandWaitEnd (init_globals clock) = zeroTime"
  by (simp add: init_globals_def)

section \<open>Properties of the orchestration\<close>

subsection \<open>What each step does to the state\<close>

lemma emit_sel [simp]:
  "trace (emit e s) = trace s @ [(now s, e)]"
  "now (emit e s) = now s"
  "reads (emit e s) = reads s"
  "attiny_CameraState (emit e s) = attiny_CameraState s"
  by (simp_all add: emit_def)

lemma time_Sleep_sel [simp]:
  "trace (time_Sleep d s) = trace s @ [(now s, Sleep d)]"
  "now (time_Sleep d s) = now s + max 0 d"
  "reads (time_Sleep d s) = reads s"
  by (simp_all add: time_Sleep_def)

lemma ReadCameraState_sel [simp]:
  "trace (snd (ReadCameraState w s)) = trace s @ [(now s, CallReadCameraState)]"
  "now (snd (ReadCameraState w s)) = now s"
  "reads (snd (ReadCameraState w s)) = Suc (reads s)"
  by (simp_all add: ReadCameraState_def Let_def split: sum.splits)

lemma ReadCameraState_fst [simp]:
  "fst (ReadCameraState w s) = err_of (env_ReadCameraState w (reads s))"
  by (simp add: ReadCameraState_def err_of_def Let_def split: sum.splits)

lemma shutdown_sel [simp]:
  "trace (snd (shutdown w s)) = trace s @ [(now s, ExecPoweroff)]"
  "now (snd (shutdown w s)) = now s"
  by (simp_all add: shutdown_def Let_def split: prod.splits option.splits)

text \<open>The definitions a concrete run is evaluated with.\<close>

lemmas clock_defs =
  clock_2158_def clock_2200_def clock_2300_def clock_0300_def
  clock_0600_def clock_0800_def Second_def Minute_def

lemmas run_defs =
  runMain_def connecting_def gracePeriod_def awaitWindow_def shutdownStage_def
  shutdown_def ReadCameraState_def emit_def time_Sleep_def init_state_def Until_def
  Sub_def minDuration_def maxDuration_def version_def

lemmas world_defs =
  world_ok_def world_grace_def world_skip_shutdown_def world_poweroff_fails_def
  world_extended_def night_window_def

lemmas conn_defs = connecting_def Let_def err_of_def split_beta

subsection \<open>The result of a run\<close>

lemma shutdownStage_fst: "fst (shutdownStage w s) = env_PoweringOff w"
  by (simp add: shutdownStage_def Let_def split: option.splits)

lemma runMain_fst:
  "fst (runMain w s) =
     (case fst (connecting w s) of Inl err \<Rightarrow> Some err | Inr conf \<Rightarrow> env_PoweringOff w)"
  by (cases "connecting w s") (simp add: runMain_def shutdownStage_fst split: sum.splits)

text \<open>
  One case distinction per checked call, in the order of the source: a failing call
  ends \<open>connecting\<close> there, a succeeding one leads to the next.
\<close>

lemma connecting_fst:
  "(case fst (connecting w s) of Inl err \<Rightarrow> Some err | Inr conf \<Rightarrow> p) =
   first_failure [err_of (env_ParseConfig w), err_of (env_connectToATtiny w), env_InitPCF9564 w,
      err_of (env_ReadCameraState w (reads s)), env_ClearAlarmFlag w, err_of (env_GetTime w),
      env_SetAlarmTime w, env_SetAlarmEnabled w, p]"
  apply (cases "env_ParseConfig w")
   apply (simp add: conn_defs)
  apply (cases "env_connectToATtiny w")
   apply (simp add: conn_defs)
  apply (cases "env_InitPCF9564 w")
   prefer 2
   apply (simp add: conn_defs)
  apply (cases "env_ReadCameraState w (reads s)")
   apply (simp add: conn_defs)
  apply (cases "env_ClearAlarmFlag w")
   prefer 2
   apply (simp add: conn_defs)
  apply (cases "env_GetTime w")
   apply (simp add: conn_defs)
  apply (cases "env_SetAlarmTime w")
   prefer 2
   apply (simp add: conn_defs)
  apply (cases "env_SetAlarmEnabled w")
   prefer 2
   apply (simp add: conn_defs)
  apply (cases p)
   apply (simp add: conn_defs)
  apply (simp add: conn_defs)
  done

lemma runMain_first_failure:
  "fst (runMain w (init_state clock)) = first_failure (checked_calls w)"
  using connecting_fst [where w = w and s = "init_state clock" and p = "env_PoweringOff w"]
  by (simp add: runMain_fst checked_calls_def init_state_def)

lemma main_runMain:
  "main w s =
     (case fst (runMain w s) of
        Some err \<Rightarrow> (1, emit (LogFatal err) (snd (runMain w s)))
      | None \<Rightarrow> (0, snd (runMain w s)))"
  by (cases "runMain w s") (simp add: main_def split: option.splits)

subsection \<open>The trace of a run\<close>

lemma connecting_trace:
  assumes "fst (connecting w s) = Inr conf"
  shows "env_ParseConfig w = Inr conf \<and>
    (\<exists>pre. map snd (trace (snd (connecting w s))) = map snd (trace s) @ pre \<and>
       (\<forall>e \<in> set pre. \<not> is_wait e) \<and>
       subseq [CallClearAlarmFlag, CallSetAlarmTime (NextStart (OnWindow conf) (now s)),
               CallSetAlarmEnabled True] pre)"
proof -
  have "fst (connecting w s) = Inr conf \<longrightarrow> ?thesis"
    apply (cases "env_ParseConfig w")
     apply (simp add: conn_defs)
    apply (cases "env_connectToATtiny w")
     apply (simp add: conn_defs)
    apply (cases "env_InitPCF9564 w")
     prefer 2
     apply (simp add: conn_defs)
    apply (cases "env_ReadCameraState w (reads s)")
     apply (simp add: conn_defs)
    apply (cases "env_ClearAlarmFlag w")
     prefer 2
     apply (simp add: conn_defs)
    apply (cases "env_GetTime w")
     apply (simp add: conn_defs)
    apply (cases "env_SetAlarmTime w")
     prefer 2
     apply (simp add: conn_defs)
    apply (cases "env_SetAlarmEnabled w")
     prefer 2
     apply (simp add: conn_defs)
    apply (simp add: conn_defs)
    done
  then show ?thesis
    using assms by simp
qed

lemma gracePeriod_trace: "\<exists>rest. trace (gracePeriod a s) = trace s @ rest"
  by (simp add: gracePeriod_def)

lemma awaitWindow_trace: "\<exists>rest. trace (awaitWindow w conf s) = trace s @ rest"
  by (simp add: awaitWindow_def Let_def)

lemma shutdownStage_trace: "\<exists>rest. trace (snd (shutdownStage w s)) = trace s @ rest"
  by (simp add: shutdownStage_def Let_def split: option.splits)

lemma shutdownStage_waits:
  "filter (is_wait \<circ> snd) (trace (snd (shutdownStage w s))) = filter (is_wait \<circ> snd) (trace s)"
  by (simp add: shutdownStage_def Let_def split: option.splits)

lemma runMain_trace:
  assumes "fst (connecting w s) = Inr conf"
  shows "\<exists>rest. trace (snd (runMain w s)) = trace (snd (connecting w s)) @ rest"
proof -
  obtain s1 where s1: "connecting w s = (Inr conf, s1)"
    using assms by (cases "connecting w s") simp
  obtain r1 where r1: "trace (gracePeriod (env_procArgs w) s1) = trace s1 @ r1"
    using gracePeriod_trace by blast
  obtain r2 where r2:
    "trace (awaitWindow w conf (gracePeriod (env_procArgs w) s1)) =
       trace (gracePeriod (env_procArgs w) s1) @ r2"
    using awaitWindow_trace by blast
  obtain r3 where r3:
    "trace (snd (shutdownStage w (awaitWindow w conf (gracePeriod (env_procArgs w) s1)))) =
       trace (awaitWindow w conf (gracePeriod (env_procArgs w) s1)) @ r3"
    using shutdownStage_trace by blast
  show ?thesis
    using s1 r1 r2 r3 by (simp add: runMain_def)
qed

subsection \<open>The deadline variables are not read\<close>

lemma ReadCameraState_globals:
  "ReadCameraState (w\<lparr>env_globals := g\<rparr>) s = ReadCameraState w s"
  by (simp add: ReadCameraState_def)

lemma connecting_globals:
  "connecting (w\<lparr>env_globals := g\<rparr>) s = connecting w s"
  by (simp add: connecting_def ReadCameraState_globals Let_def
      cong: sum.case_cong option.case_cong prod.case_cong)

lemma awaitWindow_globals:
  "awaitWindow (w\<lparr>env_globals := g\<rparr>) conf s = awaitWindow w conf s"
  by (simp add: awaitWindow_def ReadCameraState_globals Let_def)

lemma shutdownStage_globals:
  "shutdownStage (w\<lparr>env_globals := g\<rparr>) s = shutdownStage w s"
  by (simp add: shutdownStage_def shutdown_def ReadCameraState_globals Let_def
      cong: sum.case_cong option.case_cong prod.case_cong)

lemma Until_ge:
  "2 * Minute \<le> t - clock \<Longrightarrow> \<not> Until t clock < Minute * 2"
  by (simp add: Until_def Sub_def minDuration_def maxDuration_def Minute_def Second_def)

subsection \<open>The window wait\<close>

text \<open>
  C2 (window-skip rule). Take a run whose \<open>connecting\<close> part succeeds with configuration
  \<open>conf\<close>, and let \<open>s2\<close> be the state after the grace period. If at that instant the
  schedule reports the window not active and its next start is at least two minutes
  away, then the window wait changes nothing (no sleep, no event, the clock stands
  still), the run continues with the shutdown steps from \<open>s2\<close>, and the sleeps of the
  whole run are those performed up to \<open>s2\<close>.
\<close>

theorem awaitWindow_skip:
  assumes "fst (connecting w s0) = Inr conf"
    and "s2 = gracePeriod (env_procArgs w) (snd (connecting w s0))"
    and "\<not> Active (OnWindow conf) (now s2)"
    and "2 * Minute \<le> NextStart (OnWindow conf) (now s2) - now s2"
  shows "awaitWindow w conf s2 = s2 \<and> runMain w s0 = shutdownStage w s2 \<and>
         filter (is_wait \<circ> snd) (trace (snd (runMain w s0))) =
           filter (is_wait \<circ> snd) (trace s2)"
proof -
  have skip: "awaitWindow w conf s2 = s2"
    using assms(3) Until_ge [OF assms(4)] by (simp add: awaitWindow_def)
  obtain s1 where s1: "connecting w s0 = (Inr conf, s1)"
    using assms(1) by (cases "connecting w s0") simp
  have run: "runMain w s0 = shutdownStage w s2"
    using skip assms(2) s1 by (simp add: runMain_def)
  show ?thesis
    using skip run shutdownStage_waits [of w s2] by simp
qed

text \<open>
  The run started at 21:58 with the grace period skipped: the window opens at 22:00,
  exactly two minutes away, and the run performs no sleep at all.
\<close>

theorem awaitWindow_skip_witness:
  "fst (connecting world_ok (init_state clock_2158)) = Inr \<lparr>OnWindow = night_window\<rparr> \<and>
   \<not> Active night_window clock_2158 \<and>
   2 * Minute \<le> NextStart night_window clock_2158 - clock_2158 \<and>
   runMain world_ok (init_state clock_2158) =
     shutdownStage world_ok
       (gracePeriod (env_procArgs world_ok)
          (snd (connecting world_ok (init_state clock_2158)))) \<and>
   filter (is_wait \<circ> snd) (trace (snd (runMain world_ok (init_state clock_2158)))) = []"
  using awaitWindow_skip [of world_ok "init_state clock_2158" "\<lparr>OnWindow = night_window\<rparr>"
      "gracePeriod (env_procArgs world_ok) (snd (connecting world_ok (init_state clock_2158)))"]
  by (simp add: run_defs world_defs clock_defs)

text \<open>
  C1 (resumable wait). The claim that an extension of the stay-on deadline arriving
  during the wait moves the wait's target fails. The run starts at 23:00 inside the
  window, whose end is 06:00; at 03:00, in the middle of the wait, the stay-on deadline
  is extended to 08:00. The run performs one sleep, from 23:00 for the seven hours up
  to 06:00, and commands the power-off at 06:00, two hours before the extended
  deadline.
\<close>

theorem awaitWindow_extension_counterexample:
  "env_globals world_extended clock_2300 = init_globals clock_2300 \<and>
   env_globals world_extended clock_0300 = Extend StayOn clock_0800 (init_globals clock_2300) \<and>
   stayOnUntil (env_globals world_extended clock_0600) = clock_0800 \<and>
   clock_2300 < clock_0300 \<and> clock_0300 < clock_0600 \<and> clock_0600 < clock_0800 \<and>
   Active night_window clock_2300 \<and> NextEnd night_window clock_2300 = clock_0600 \<and>
   filter (is_wait \<circ> snd) (trace (snd (runMain world_extended (init_state clock_2300)))) =
     [(clock_2300, Sleep (clock_0600 - clock_2300))] \<and>
   (clock_0600, CallPoweringOff) \<in> set (trace (snd (runMain world_extended (init_state clock_2300)))) \<and>
   now (snd (runMain world_extended (init_state clock_2300))) = clock_0600"
  by (simp add: run_defs world_defs clock_defs init_globals_def)

text \<open>
  C1, amended. While the window is open or starts in under two minutes, the window wait
  is one sleep whose duration, the time until the window's next end, is computed once
  on entry from the window query alone: on return the clock has advanced by that
  duration (by nothing when it is negative), the wait has added exactly that one sleep
  to the trace, and no run depends on the deadline variables, so an extension that
  arrives during the wait leaves the time of waking unchanged.
\<close>

theorem awaitWindow_single_sleep:
  assumes "Active (OnWindow conf) (now s)
           \<or> Until (NextStart (OnWindow conf) (now s)) (now s) < 2 * Minute"
  shows "now (awaitWindow w conf s) =
           now s + max 0 (Until (NextEnd (OnWindow conf) (now s)) (now s)) \<and>
         filter (is_wait \<circ> snd) (trace (awaitWindow w conf s)) =
           filter (is_wait \<circ> snd) (trace s) @
             [(now s, Sleep (Until (NextEnd (OnWindow conf) (now s)) (now s)))] \<and>
         runMain (w\<lparr>env_globals := g\<rparr>) s0 = runMain w s0"
proof -
  have cond: "Active (OnWindow conf) (now s)
           \<or> Until (NextStart (OnWindow conf) (now s)) (now s) < Minute * 2"
    using assms by (simp add: mult.commute)
  have woken: "now (awaitWindow w conf s) =
      now s + max 0 (Until (NextEnd (OnWindow conf) (now s)) (now s))"
    using cond by (simp add: awaitWindow_def Let_def)
  have one_sleep: "filter (is_wait \<circ> snd) (trace (awaitWindow w conf s)) =
      filter (is_wait \<circ> snd) (trace s) @
        [(now s, Sleep (Until (NextEnd (OnWindow conf) (now s)) (now s)))]"
    using cond by (simp add: awaitWindow_def Let_def)
  have unread: "runMain (w\<lparr>env_globals := g\<rparr>) s0 = runMain w s0"
    by (simp add: runMain_def connecting_globals awaitWindow_globals shutdownStage_globals
        split: prod.splits sum.splits)
  show ?thesis
    using woken one_sleep unread by simp
qed

theorem awaitWindow_single_sleep_witness:
  "Active night_window clock_2300 \<and>
   now (awaitWindow world_ok \<lparr>OnWindow = night_window\<rparr> (init_state clock_2300)) = clock_0600 \<and>
   filter (is_wait \<circ> snd)
     (trace (awaitWindow world_ok \<lparr>OnWindow = night_window\<rparr> (init_state clock_2300))) =
     [(clock_2300, Sleep (clock_0600 - clock_2300))] \<and>
   runMain (world_ok\<lparr>env_globals := env_globals world_extended\<rparr>) (init_state clock_2300) =
     runMain world_ok (init_state clock_2300)"
  using awaitWindow_single_sleep [of "\<lparr>OnWindow = night_window\<rparr>" "init_state clock_2300"
      world_ok "env_globals world_extended" "init_state clock_2300"]
  by (simp add: run_defs world_defs clock_defs)

subsection \<open>The alarm is armed before any wait\<close>

text \<open>
  C5 (ordering). In every successful run the configuration was parsed, and the events
  that precede the first sleep of the run (all events, when the run never sleeps)
  contain, in this order, the call of \<open>ClearAlarmFlag\<close>, the call of \<open>SetAlarmTime\<close> with
  the window's next start, and the call of \<open>SetAlarmEnabled(true)\<close>: the flag is cleared
  and the alarm programmed and enabled strictly before the grace-period sleep and the
  window wait.
\<close>

theorem alarm_armed_before_wait:
  assumes "fst (runMain w (init_state clock)) = None"
  shows "\<exists>conf. env_ParseConfig w = Inr conf \<and>
     subseq [CallClearAlarmFlag, CallSetAlarmTime (NextStart (OnWindow conf) clock),
             CallSetAlarmEnabled True]
       (takeWhile (\<lambda>e. \<not> is_wait e)
          (map snd (trace (snd (runMain w (init_state clock))))))"
proof -
  obtain conf where conf: "fst (connecting w (init_state clock)) = Inr conf"
    using assms by (cases "fst (connecting w (init_state clock))") (simp_all add: runMain_fst)
  from connecting_trace [OF conf]
  obtain pre where parse: "env_ParseConfig w = Inr conf"
    and pre: "map snd (trace (snd (connecting w (init_state clock)))) = pre"
    and quiet: "\<forall>e \<in> set pre. \<not> is_wait e"
    and armed: "subseq [CallClearAlarmFlag, CallSetAlarmTime (NextStart (OnWindow conf) clock),
             CallSetAlarmEnabled True] pre"
    by (auto simp: init_state_def)
  obtain rest where rest: "trace (snd (runMain w (init_state clock))) =
      trace (snd (connecting w (init_state clock))) @ rest"
    using runMain_trace [OF conf] by blast
  have "takeWhile (\<lambda>e. \<not> is_wait e) (map snd (trace (snd (runMain w (init_state clock))))) =
      pre @ takeWhile (\<lambda>e. \<not> is_wait e) (map snd rest)"
    using rest pre quiet by (simp add: takeWhile_append2)
  then show ?thesis
    using parse armed by (auto intro: list_emb_prefix)
qed

text \<open>
  The run started at 21:58 with the grace period: it sleeps twice, for the twenty
  minutes and then until 06:00, and the three calls precede both sleeps.
\<close>

theorem alarm_armed_before_wait_witness:
  "fst (runMain world_grace (init_state clock_2158)) = None \<and>
   subseq [CallClearAlarmFlag, CallSetAlarmTime clock_2200, CallSetAlarmEnabled True]
     (takeWhile (\<lambda>e. \<not> is_wait e)
        (map snd (trace (snd (runMain world_grace (init_state clock_2158)))))) \<and>
   filter is_wait (map snd (trace (snd (runMain world_grace (init_state clock_2158))))) =
     [Sleep (20 * Minute), Sleep (clock_0600 - (clock_2158 + 20 * Minute))]"
  using alarm_armed_before_wait [of world_grace clock_2158]
  by (simp add: run_defs world_defs clock_defs)

subsection \<open>Errors\<close>

text \<open>
  The calls whose error \<open>runMain\<close> checks (\<open>ParseConfig\<close>, the connection to the power
  MCU, \<open>InitPCF9564\<close>, the first \<open>ReadCameraState\<close>, \<open>ClearAlarmFlag\<close>, \<open>GetTime\<close>,
  \<open>SetAlarmTime\<close>, \<open>SetAlarmEnabled\<close> and \<open>PoweringOff\<close>) propagate: \<open>runMain\<close> returns the
  error of the first of them that fails, \<open>main\<close> then logs that error with \<open>log.Fatal\<close>
  and exits with status 1; \<open>runMain\<close> returns no error and \<open>main\<close> exits with status 0
  when none of them fails.
\<close>

lemma checked_errors_propagate:
  "fst (runMain w (init_state clock)) = first_failure (checked_calls w) \<and>
   main w (init_state clock) =
     (case first_failure (checked_calls w) of
        Some err \<Rightarrow> (1, emit (LogFatal err) (snd (runMain w (init_state clock))))
      | None \<Rightarrow> (0, snd (runMain w (init_state clock))))"
  by (simp add: runMain_first_failure main_runMain)

text \<open>
  C9 (no failure is swallowed). The code at the input that shows the defect:
  \<^verbatim>\<open>/sbin/poweroff\<close> fails and \<open>shutdown\<close> returns an error, yet the process ends exactly
  as in the run in which the command succeeds: the same exit status 0 and the same
  trace, so no log line records the failure and no error is propagated.
\<close>

theorem poweroff_failure_swallowed:
  "snd (env_poweroff world_poweroff_fails) = Some ''exit status 1'' \<and>
   fst (shutdown world_poweroff_fails (init_state clock_2158)) \<noteq> None \<and>
   main world_poweroff_fails (init_state clock_2158) = main world_ok (init_state clock_2158) \<and>
   fst (main world_ok (init_state clock_2158)) = 0"
  by (simp add: main_def run_defs world_defs clock_defs)

text \<open>
  C3 (skip of the OS shutdown). The code at the input that shows the defect: started
  with \<^verbatim>\<open>--skip-system-shutdown\<close>, the run succeeds and still executes
  \<^verbatim>\<open>/sbin/poweroff\<close>.
\<close>

theorem skip_system_shutdown_ignored:
  "SkipSystemShutdown (env_procArgs world_skip_shutdown) \<and>
   fst (runMain world_skip_shutdown (init_state clock_2158)) = None \<and>
   (clock_2158, ExecPoweroff) \<in>
     set (trace (snd (runMain world_skip_shutdown (init_state clock_2158))))"
  by (simp add: run_defs world_defs clock_defs)

text \<open>
  C4 (a failing power-off is fatal). The code at the input that shows the defect:
  \<^verbatim>\<open>/sbin/poweroff\<close> fails, \<open>shutdown\<close> returns the error that carries the command's
  output, and yet \<open>runMain\<close> returns no error and the process exits with status 0.
\<close>

theorem poweroff_failure_not_fatal:
  "fst (shutdown world_poweroff_fails (init_state clock_2158)) =
     Some (''poweroff failed: exit status 1'' @ [CHR 0x0A] @ ''poweroff: must be superuser.'') \<and>
   (clock_2158, ExecPoweroff) \<in>
     set (trace (snd (runMain world_poweroff_fails (init_state clock_2158)))) \<and>
   fst (runMain world_poweroff_fails (init_state clock_2158)) = None \<and>
   fst (main world_poweroff_fails (init_state clock_2158)) = 0"
  by (simp add: main_def run_defs world_defs clock_defs)

end
